theory Spec2Isabelle
  imports Complex_Main
begin

section \<open>JavaScript strings\<close>

text \<open>
  A JavaScript string is a sequence of code units. It is modelled as a \<open>string\<close>
  (a \<open>char list\<close>), one \<open>char\<close> for each code unit, so that \<open>length\<close>, \<open>take\<close> and
  \<open>drop\<close> count what \<open>substring\<close> counts.

  \<open>split_on c s\<close> is \<open>s.split(c)\<close> for a separator of one character: the segments
  between the occurrences of \<open>c\<close>, never an empty array (\<open>"".split("-")\<close> is \<open>[""]\<close>).
\<close>

fun split_on :: "char \<Rightarrow> string \<Rightarrow> string list" where
  "split_on c [] = [[]]"
| "split_on c (x # xs) =
     (if x = c then [] # split_on c xs
      else (case split_on c xs of
              [] \<Rightarrow> [[x]]
            | w # ws \<Rightarrow> (x # w) # ws))"

text \<open>\<open>replace_first a b s\<close> is \<open>s.replace(a, b)\<close> for a string pattern of one
  character: only the first occurrence is replaced.\<close>

fun replace_first :: "char \<Rightarrow> char \<Rightarrow> string \<Rightarrow> string" where
  "replace_first a b [] = []"
| "replace_first a b (x # xs) = (if x = a then b # xs else x # replace_first a b xs)"

text \<open>\<open>substring s i j\<close> is \<open>s.substring(i, j)\<close> (the arguments are swapped when
  \<open>i > j\<close> and clamped to the length); \<open>substring_from s i\<close> is \<open>s.substring(i)\<close>.\<close>

definition substring :: "string \<Rightarrow> nat \<Rightarrow> nat \<Rightarrow> string" where
  "substring s i j = take (max i j - min i j) (drop (min i j) s)"

definition substring_from :: "string \<Rightarrow> nat \<Rightarrow> string" where
  "substring_from s i = drop i s"

section \<open>Booking ids\<close>

text \<open>The id that \<open>GET /bookings\<close> builds for a booking (server.js, line 135):
  \<^verbatim>\<open>`${date}-${slot.replace(':', '-')}`\<close>.\<close>

definition booking_id :: "string \<Rightarrow> string \<Rightarrow> string" where
  "booking_id date slot = date @ ''-'' @ replace_first CHR '':'' CHR ''-'' slot"

datatype exn = TypeError | IOError

text \<open>The decoding at the head of \<open>DELETE /booking/:id\<close> (lines 149-150):
  \<^verbatim>\<open>const [date, time] = bookingId.split('-');\<close>
  \<^verbatim>\<open>const slot = `${time.substring(0, 2)}:${time.substring(3)}`;\<close>
  The destructuring takes the first two segments and drops the others. With a single
  segment \<open>time\<close> is \<open>undefined\<close> and \<open>time.substring\<close> throws a TypeError.\<close>

definition decode_id :: "string \<Rightarrow> exn + (string \<times> string)" where
  "decode_id bookingId =
     (case split_on CHR ''-'' bookingId of
        date # time # _ \<Rightarrow> Inr (date, substring time 0 2 @ '':'' @ substring_from time 3)
      | _ \<Rightarrow> Inl TypeError)"

section \<open>JSON values\<close>

text \<open>
  The values that a request body or the data file holds. An object is the list of its
  own properties. A number is its value (the finite ones: a number too large for a
  double is not modelled).
\<close>

datatype json =
    JNull
  | JBool bool
  | JNum rat
  | JStr string
  | JArr "json list"
  | JObj "(string \<times> json) list"

text \<open>Whether a value is truthy: \<open>null\<close>, \<open>false\<close>, zero and the empty string are not.\<close>

fun truthy :: "json \<Rightarrow> bool" where
  "truthy JNull = False"
| "truthy (JBool b) = b"
| "truthy (JNum n) = (n \<noteq> 0)"
| "truthy (JStr s) = (s \<noteq> [])"
| "truthy (JArr xs) = True"
| "truthy (JObj props) = True"

text \<open>
  Whether the conversion of a value to a string, as a template literal does it, returns.
  An object is converted by its method \<open>toString\<close>, then by \<open>valueOf\<close>: an object with an
  own property \<open>toString\<close> (a JSON value, hence not callable) is left with the inherited
  \<open>valueOf\<close>, which returns the object itself, and the conversion throws a TypeError;
  any other object is converted by the inherited \<open>toString\<close>. An array is converted by
  joining the conversions of its elements, \<open>null\<close> giving the empty string.
\<close>

fun stringifiable :: "json \<Rightarrow> bool" where
  "stringifiable (JObj props) = (map_of props ''toString'' = None)"
| "stringifiable (JArr xs) = list_all (\<lambda>x. stringifiable x) xs"
| "stringifiable _ = True"

text \<open>
  \<open>xs.includes(v)\<close>, for an array \<open>xs\<close> parsed from the data file and a value \<open>v\<close> of the
  request. The elements are compared by SameValueZero: \<open>null\<close>, booleans, numbers and
  strings by their value, an array or an object by identity; and an array or object
  of the request is never the one that was parsed from the file, whatever it holds.
\<close>

definition array_includes :: "json list \<Rightarrow> json \<Rightarrow> bool" where
  "array_includes xs v =
     (case v of
        JArr _ \<Rightarrow> False
      | JObj _ \<Rightarrow> False
      | _ \<Rightarrow> v \<in> set xs)"

section \<open>The store: the object parsed from the data file\<close>

text \<open>
  The data file holds one JSON object that maps a date to the array of the slots booked
  on that date. A slot that the program saves is the slot of a request body, a string
  in the data model but any JSON value in the program. The parsed object is modelled by the list of its own properties, in the
  order in which \<open>Object.keys\<close> and \<open>JSON.stringify\<close> enumerate them: the keys that
  are array indices first, in ascending numeric order, then the other keys in the order
  of their creation.
\<close>

type_synonym store = "(string \<times> json list) list"

text \<open>
  The object is an ordinary object: a property that is not its own is looked up in
  \<open>Object.prototype\<close>. Reading \<open>data[date]\<close> therefore gives \<open>undefined\<close>, an own array,
  or an inherited value (a function, or the prototype itself for \<open>__proto__\<close>): a truthy
  value that has no method \<open>includes\<close>.
\<close>

definition object_prototype_names :: "string list" where
  "object_prototype_names =
     [''constructor'', ''hasOwnProperty'', ''isPrototypeOf'', ''propertyIsEnumerable'',
      ''toLocaleString'', ''toString'', ''valueOf'', ''__proto__'',
      ''__defineGetter__'', ''__defineSetter__'', ''__lookupGetter__'', ''__lookupSetter__'']"

datatype lookup = Undefined | Own "json list" | Inherited

definition get_prop :: "store \<Rightarrow> string \<Rightarrow> lookup" where
  "get_prop data k =
     (case map_of data k of
        Some v \<Rightarrow> Own v
      | None \<Rightarrow> if k \<in> set object_prototype_names then Inherited else Undefined)"

definition is_digit :: "char \<Rightarrow> bool" where
  "is_digit c = (c \<in> set ''0123456789'')"

definition digit_val :: "char \<Rightarrow> nat" where
  "digit_val c = of_char c - 48"

definition digits_val :: "string \<Rightarrow> nat" where
  "digits_val s = foldl (\<lambda>n c. 10 * n + digit_val c) 0 s"

text \<open>An array index is a canonical numeric string (no sign, no leading zero) whose
  value is at most \<open>2^32 - 2\<close>.\<close>

definition array_index :: "string \<Rightarrow> nat option" where
  "array_index k =
     (if list_all is_digit k
         \<and> (case k of [] \<Rightarrow> False | c # cs \<Rightarrow> (if c = CHR ''0'' then cs = [] else True))
         \<and> digits_val k \<le> 4294967294
      then Some (digits_val k) else None)"

text \<open>Creating an own property: an array index goes to its numeric place among the
  array indices, any other key to the end.\<close>

fun create_prop :: "string \<Rightarrow> json list \<Rightarrow> store \<Rightarrow> store" where
  "create_prop k v [] = [(k, v)]"
| "create_prop k v ((k', v') # rest) =
     (case array_index k of
        None \<Rightarrow> (k', v') # create_prop k v rest
      | Some i \<Rightarrow>
          (case array_index k' of
             None \<Rightarrow> (k, v) # (k', v') # rest
           | Some j \<Rightarrow>
               if j < i then (k', v') # create_prop k v rest
               else (k, v) # (k', v') # rest))"

text \<open>\<open>data[k] = v\<close>, for a key that is an own property (the value is replaced in
  place) or that is neither own nor inherited (the property is created). The handlers
  assign in no other case.\<close>

definition set_prop :: "store \<Rightarrow> string \<Rightarrow> json list \<Rightarrow> store" where
  "set_prop data k v =
     (case map_of data k of
        None \<Rightarrow> create_prop k v data
      | Some _ \<Rightarrow> map (\<lambda>(k', v'). if k' = k then (k', v) else (k', v')) data)"

text \<open>\<open>delete data[k]\<close>.\<close>

definition delete_prop :: "store \<Rightarrow> string \<Rightarrow> store" where
  "delete_prop data k = filter (\<lambda>(k', v'). k' \<noteq> k) data"

definition object_keys :: "store \<Rightarrow> string list" where
  "object_keys data = map fst data"

section \<open>The data file and the host\<close>

text \<open>
  The state of \<open>slots-data.json\<close>: the file does not exist; it exists but cannot be read
  or parsed; or it holds the JSON text of a store.
\<close>

datatype data_file = Absent | Unreadable | Content store

text \<open>What a request does besides answering: the calls on the file system and on the
  console, in order.\<close>

datatype event =
    ExistsSync
  | ReadFileSync
  | WriteFileSync store
  | ConsoleError
  | LogBooked string json json
  | LogDeleted string string

text \<open>
  The host of the process: whether the write that creates the data file succeeds,
  whether the write that saves the store succeeds, the offset of local time from UTC in
  milliseconds at a time value, and what \<open>Date.parse\<close> makes of a string that is not a
  valid calendar date of the form \<open>YYYY-MM-DD\<close> (\<open>None\<close> is \<open>NaN\<close>; the language leaves
  this to the implementation).
\<close>

record host =
  create_ok :: bool
  save_ok :: bool
  localTZA :: "int \<Rightarrow> int"
  parse_other :: "string \<Rightarrow> int option"

text \<open>\<open>readData\<close> (lines 17-29). The write that creates the file is outside the
  \<open>try\<close>: when it fails the exception leaves \<open>readData\<close>.\<close>

definition readData :: "host \<Rightarrow> data_file \<Rightarrow> (exn + store) \<times> data_file \<times> event list" where
  "readData h f =
     (case f of
        Absent \<Rightarrow>
          if create_ok h then (Inr [], Content [], [ExistsSync, WriteFileSync []])
          else (Inl IOError, Absent, [ExistsSync, WriteFileSync []])
      | Unreadable \<Rightarrow> (Inr [], Unreadable, [ExistsSync, ReadFileSync, ConsoleError])
      | Content data \<Rightarrow> (Inr data, Content data, [ExistsSync, ReadFileSync]))"

text \<open>\<open>writeData\<close> (lines 31-39): a failed write leaves the file as it was. What is
  written is read back as it was: \<open>JSON.parse\<close> inverts \<open>JSON.stringify\<close> on these
  values.\<close>

definition writeData :: "host \<Rightarrow> store \<Rightarrow> data_file \<Rightarrow> bool \<times> data_file \<times> event list" where
  "writeData h data f =
     (if save_ok h then (True, Content data, [WriteFileSync data])
      else (False, f, [WriteFileSync data, ConsoleError]))"

text \<open>The store that a request sees in a file: what \<open>readData\<close> returns.\<close>

definition store_of :: "data_file \<Rightarrow> store" where
  "store_of f = (case f of Content data \<Rightarrow> data | _ \<Rightarrow> [])"

section \<open>Dates\<close>

text \<open>
  \<open>new Date(date).getDay()\<close>. A string of the form \<open>YYYY-MM-DD\<close> that names a day of
  the calendar is parsed as midnight UTC of that day; \<open>getDay\<close> is the day of the week of
  that instant in local time (0 is Sunday, 6 is Saturday).
\<close>

definition msPerDay :: int where
  "msPerDay = 86400000"

definition InLeapYear :: "int \<Rightarrow> bool" where
  "InLeapYear y =
     (if y mod 400 = 0 then True else if y mod 100 = 0 then False else y mod 4 = 0)"

definition DayFromYear :: "int \<Rightarrow> int" where
  "DayFromYear y =
     365 * (y - 1970) + (y - 1969) div 4 - (y - 1901) div 100 + (y - 1601) div 400"

definition month_lengths :: "int \<Rightarrow> nat list" where
  "month_lengths y =
     [31, if InLeapYear y then 29 else 28, 31, 30, 31, 30, 31, 31, 30, 31, 30, 31]"

text \<open>The day number of the day \<open>d\<close> (from 1) of the month \<open>m\<close> (from 1) of the year
  \<open>y\<close>, counted from 1 January 1970.\<close>

definition MakeDay :: "int \<Rightarrow> nat \<Rightarrow> nat \<Rightarrow> int" where
  "MakeDay y m d = DayFromYear y + int (sum_list (take (m - 1) (month_lengths y))) + int d - 1"

definition Day :: "int \<Rightarrow> int" where
  "Day t = t div msPerDay"

definition WeekDay :: "int \<Rightarrow> int" where
  "WeekDay t = (Day t + 4) mod 7"

definition parse_date_only :: "string \<Rightarrow> (int \<times> nat \<times> nat) option" where
  "parse_date_only s =
     (let y = int (digits_val (take 4 s));
          m = digits_val (take 2 (drop 5 s));
          d = digits_val (drop 8 s)
      in if length s = 10 \<and> s ! 4 = CHR ''-'' \<and> s ! 7 = CHR ''-''
            \<and> list_all is_digit (take 4 s @ take 2 (drop 5 s) @ drop 8 s)
            \<and> 1 \<le> m \<and> m \<le> 12 \<and> 1 \<le> d \<and> d \<le> month_lengths y ! (m - 1)
         then Some (y, m, d) else None)"

definition Date_parse :: "host \<Rightarrow> string \<Rightarrow> int option" where
  "Date_parse h s =
     (case parse_date_only s of
        Some (y, m, d) \<Rightarrow> Some (MakeDay y m d * msPerDay)
      | None \<Rightarrow> parse_other h s)"

definition getDay :: "host \<Rightarrow> string \<Rightarrow> int option" where
  "getDay h s =
     (case Date_parse h s of
        None \<Rightarrow> None
      | Some t \<Rightarrow> Some (WeekDay (t + localTZA h t)))"

text \<open>The day of the week of the calendar date that a \<open>YYYY-MM-DD\<close> string names,
  whatever the host.\<close>

definition calendar_weekday :: "string \<Rightarrow> int option" where
  "calendar_weekday s =
     (case parse_date_only s of
        Some (y, m, d) \<Rightarrow> Some ((MakeDay y m d + 4) mod 7)
      | None \<Rightarrow> None)"

section \<open>The request handlers\<close>

definition DEFAULT_SLOTS :: "string list" where
  "DEFAULT_SLOTS =
     [''08:00'', ''09:00'', ''10:00'', ''11:00'', ''14:00'', ''15:00'', ''16:00'', ''17:00'']"

definition SATURDAY_SLOTS :: "string list" where
  "SATURDAY_SLOTS = [''09:00'', ''10:00'', ''11:00'', ''12:00'']"

record booking =
  bk_date :: string
  bk_slot :: string
  bk_id :: string

text \<open>What a handler answers. \<open>Uncaught e\<close>: the exception \<open>e\<close> leaves the handler (the
  framework then answers 500).\<close>

datatype response =
    SlotsOK string "string list" "json list"
  | DateRequired
  | BookOK string json
  | DateSlotRequired
  | AlreadyBooked
  | SaveFailed
  | BookingsOK nat "booking list"
  | CancelOK
  | NotFound
  | DeleteFailed
  | Uncaught exn

fun status :: "response \<Rightarrow> nat" where
  "status (SlotsOK _ _ _) = 200"
| "status DateRequired = 400"
| "status (BookOK _ _) = 200"
| "status DateSlotRequired = 400"
| "status AlreadyBooked = 409"
| "status SaveFailed = 500"
| "status (BookingsOK _ _) = 200"
| "status CancelOK = 200"
| "status NotFound = 404"
| "status DeleteFailed = 500"
| "status (Uncaught _) = 500"

text \<open>The result of a request: the answer, the data file afterwards, and what the
  request did on the file system and the console.\<close>

record outcome =
  resp :: response
  disk :: data_file
  trace :: "event list"

text \<open>\<open>GET /slots\<close> (lines 47-74). \<open>query_date\<close> is \<open>req.query.date\<close>, \<open>None\<close> when the
  parameter is missing; \<open>!date\<close> holds for a missing and for an empty date.\<close>

definition get_slots :: "host \<Rightarrow> data_file \<Rightarrow> string option \<Rightarrow> outcome" where
  "get_slots h f query_date =
     (case query_date of
        None \<Rightarrow> \<lparr>resp = DateRequired, disk = f, trace = []\<rparr>
      | Some date \<Rightarrow>
          if date = [] then \<lparr>resp = DateRequired, disk = f, trace = []\<rparr>
          else
            (case readData h f of
               (Inl e, f', t) \<Rightarrow> \<lparr>resp = Uncaught e, disk = f', trace = t\<rparr>
             | (Inr data, f', t) \<Rightarrow>
                 (let allSlots =
                        (if getDay h date = Some 6 then SATURDAY_SLOTS else DEFAULT_SLOTS)
                  in case get_prop data date of
                       Undefined \<Rightarrow>
                         \<lparr>resp = SlotsOK date
                                   (filter (\<lambda>slot. \<not> array_includes [] (JStr slot)) allSlots) [],
                          disk = f', trace = t\<rparr>
                     | Own bookedSlots \<Rightarrow>
                         \<lparr>resp = SlotsOK date
                                   (filter (\<lambda>slot. \<not> array_includes bookedSlots (JStr slot))
                                      allSlots)
                                   bookedSlots,
                          disk = f', trace = t\<rparr>
                     | Inherited \<Rightarrow>
                         \<lparr>resp = Uncaught TypeError, disk = f', trace = t\<rparr>)))"

text \<open>
  The body of \<open>POST /book\<close>: \<open>date\<close> and \<open>slot\<close> (\<open>None\<close> when missing), and the optional
  \<open>client\<close> and \<open>vehicle\<close>. The handler tests the slot for truthiness only, so the slot
  is whatever JSON value the body holds, and so are the client and the vehicle. The date
  is the string that keys the store (a date of another type would be converted to
  one by the property access).
\<close>

record book_body =
  body_date :: "string option"
  body_slot :: "json option"
  body_client :: "json option"
  body_vehicle :: "json option"

text \<open>\<^verbatim>\<open>client?.name\<close>: \<open>None\<close> is \<open>undefined\<close>. Only an object has a property \<open>name\<close>, and
  only as an own property.\<close>

definition optional_name :: "json option \<Rightarrow> json option" where
  "optional_name client =
     (case client of
        Some (JObj props) \<Rightarrow> map_of props ''name''
      | _ \<Rightarrow> None)"

text \<open>\<^verbatim>\<open>client?.name || 'anonyme'\<close>\<close>

definition client_label :: "json option \<Rightarrow> json" where
  "client_label client =
     (case optional_name client of
        None \<Rightarrow> JStr ''anonyme''
      | Some n \<Rightarrow> if truthy n then n else JStr ''anonyme'')"

text \<open>\<open>POST /book\<close> (lines 77-121). The line for the console is built after the store
  is saved and before the answer is sent; its template literal converts the slot and
  the name of the client to strings: when a conversion throws, the exception leaves the
  handler with the booking saved.\<close>

definition post_book :: "host \<Rightarrow> data_file \<Rightarrow> book_body \<Rightarrow> outcome" where
  "post_book h f body =
     (case (body_date body, body_slot body) of
        (Some date, Some slot) \<Rightarrow>
          if date = [] \<or> \<not> truthy slot
          then \<lparr>resp = DateSlotRequired, disk = f, trace = []\<rparr>
          else
            (case readData h f of
               (Inl e, f', t) \<Rightarrow> \<lparr>resp = Uncaught e, disk = f', trace = t\<rparr>
             | (Inr data, f', t) \<Rightarrow>
                 (let data1 =
                        (if get_prop data date = Undefined then set_prop data date []
                         else data)
                  in case get_prop data1 date of
                       Own booked \<Rightarrow>
                         if array_includes booked slot
                         then \<lparr>resp = AlreadyBooked, disk = f', trace = t\<rparr>
                         else
                           (let data2 = set_prop data1 date (booked @ [slot])
                            in case writeData h data2 f' of
                                 (ok, f'', t') \<Rightarrow>
                                   if ok
                                   then
                                     if stringifiable slot
                                        \<and> stringifiable (client_label (body_client body))
                                     then \<lparr>resp = BookOK date slot, disk = f'',
                                           trace = t @ t' @
                                             [LogBooked date slot
                                                (client_label (body_client body))]\<rparr>
                                     else \<lparr>resp = Uncaught TypeError, disk = f'',
                                           trace = t @ t'\<rparr>
                                   else \<lparr>resp = SaveFailed, disk = f'', trace = t @ t'\<rparr>)
                     | _ \<Rightarrow> \<lparr>resp = Uncaught TypeError, disk = f', trace = t\<rparr>))
      | _ \<Rightarrow> \<lparr>resp = DateSlotRequired, disk = f, trace = []\<rparr>)"

text \<open>\<open>GET /bookings\<close> (lines 124-144). \<open>slot.replace\<close> is a function for a string
  only: a saved slot of another type throws a TypeError.\<close>

definition format_booking :: "string \<Rightarrow> json \<Rightarrow> exn + booking" where
  "format_booking date slot =
     (case slot of
        JStr s \<Rightarrow> Inr \<lparr>bk_date = date, bk_slot = s, bk_id = booking_id date s\<rparr>
      | _ \<Rightarrow> Inl TypeError)"

text \<open>The loop that pushes the bookings stops at the first exception.\<close>

fun push_all :: "(exn + booking) list \<Rightarrow> exn + booking list" where
  "push_all [] = Inr []"
| "push_all (Inl e # rest) = Inl e"
| "push_all (Inr b # rest) =
     (case push_all rest of
        Inl e \<Rightarrow> Inl e
      | Inr bs \<Rightarrow> Inr (b # bs))"

definition get_bookings :: "host \<Rightarrow> data_file \<Rightarrow> outcome" where
  "get_bookings h f =
     (case readData h f of
        (Inl e, f', t) \<Rightarrow> \<lparr>resp = Uncaught e, disk = f', trace = t\<rparr>
      | (Inr data, f', t) \<Rightarrow>
          (case push_all
                  (concat (map (\<lambda>date.
                             case get_prop data date of
                               Own slots \<Rightarrow> map (format_booking date) slots
                             | _ \<Rightarrow> [])
                           (object_keys data))) of
             Inl e \<Rightarrow> \<lparr>resp = Uncaught e, disk = f', trace = t\<rparr>
           | Inr formattedBookings \<Rightarrow>
               \<lparr>resp = BookingsOK (length formattedBookings) formattedBookings,
                disk = f', trace = t\<rparr>))"

text \<open>\<open>DELETE /booking/:id\<close> (lines 147-183). The id is decoded before the file is
  read.\<close>

definition delete_booking :: "host \<Rightarrow> data_file \<Rightarrow> string \<Rightarrow> outcome" where
  "delete_booking h f bookingId =
     (case decode_id bookingId of
        Inl e \<Rightarrow> \<lparr>resp = Uncaught e, disk = f, trace = []\<rparr>
      | Inr (date, slot) \<Rightarrow>
          (case readData h f of
             (Inl e, f', t) \<Rightarrow> \<lparr>resp = Uncaught e, disk = f', trace = t\<rparr>
           | (Inr data, f', t) \<Rightarrow>
               (case get_prop data date of
                  Undefined \<Rightarrow> \<lparr>resp = NotFound, disk = f', trace = t\<rparr>
                | Inherited \<Rightarrow> \<lparr>resp = Uncaught TypeError, disk = f', trace = t\<rparr>
                | Own booked \<Rightarrow>
                    if \<not> array_includes booked (JStr slot)
                    then \<lparr>resp = NotFound, disk = f', trace = t\<rparr>
                    else
                      (let remaining = filter (\<lambda>s. s \<noteq> JStr slot) booked;
                           data1 = set_prop data date remaining;
                           data2 = (if length remaining = 0 then delete_prop data1 date
                                    else data1)
                       in case writeData h data2 f' of
                            (ok, f'', t') \<Rightarrow>
                              if ok
                              then \<lparr>resp = CancelOK, disk = f'',
                                    trace = t @ t' @ [LogDeleted date slot]\<rparr>
                              else \<lparr>resp = DeleteFailed, disk = f'', trace = t @ t'\<rparr>))))"

section \<open>The invariant of the store\<close>


section \<open>Properties of the store operations\<close>

lemma array_includes_JStr: "array_includes xs (JStr s) = (JStr s \<in> set xs)"
  by (simp add: array_includes_def)

lemma array_includes_in_set: "array_includes xs v \<Longrightarrow> v \<in> set xs"
  by (auto simp: array_includes_def split: json.splits)

lemma map_of_create_prop:
  "map_of data k = None \<Longrightarrow>
   map_of (create_prop k v data) k' = (if k' = k then Some v else map_of data k')"
  by (induction data) (auto split: option.splits if_splits)

lemma map_of_replace:
  "map_of (map (\<lambda>(k', v'). if k' = k then (k', v) else (k', v')) data) k'' =
     (if k'' = k then map_option (\<lambda>_. v) (map_of data k) else map_of data k'')"
  by (induction data) (auto split: if_splits)

lemma map_of_set_prop:
  "map_of (set_prop data k v) k' = (if k' = k then Some v else map_of data k')"
  by (simp add: set_prop_def map_of_create_prop map_of_replace split: option.splits)

lemma get_prop_set_prop_same: "get_prop (set_prop data k v) k = Own v"
  by (simp add: get_prop_def map_of_set_prop)

lemma get_prop_set_prop_other: "k' \<noteq> k \<Longrightarrow> get_prop (set_prop data k v) k' = get_prop data k'"
  by (simp add: get_prop_def map_of_set_prop)









lemma map_of_delete_prop:
  "map_of (delete_prop data k) k' = (if k' = k then None else map_of data k')"
  by (induction data) (auto simp: delete_prop_def)











section \<open>Booking and cancelling preserve the invariant\<close>




section \<open>Booking the same slot twice\<close>

lemma post_book_BookOK:
  assumes "resp (post_book h f b) = BookOK d s"
  shows "body_date b = Some d \<and> body_slot b = Some s \<and> d \<noteq> [] \<and> truthy s
       \<and> (\<exists>data booked. disk (post_book h f b) = Content data
             \<and> get_prop data d = Own booked \<and> s \<in> set booked)"
  using assms
  by (auto simp: post_book_def readData_def writeData_def Let_def get_prop_set_prop_same
           split: option.splits data_file.splits lookup.splits if_splits)





section \<open>Requests that are refused before the store is read\<close>

text \<open>
  Claim C8. \<open>GET /slots\<close> without a date (the parameter is missing or empty) answers
  with the invalid-input error (status 400) and does not touch the data file: the file
  is unchanged and the request makes no call on the file system.
\<close>

theorem slots_without_date:
  assumes "query_date = None \<or> query_date = Some []"
  shows "get_slots h f query_date = \<lparr>resp = DateRequired, disk = f, trace = []\<rparr>
       \<and> status DateRequired = 400"
  using assms by (auto simp: get_slots_def)

theorem slots_without_date_witness:
  "get_slots \<lparr>create_ok = True, save_ok = True, localTZA = (\<lambda>t. 0), parse_other = (\<lambda>s. None)\<rparr>
      (Content [(''2024-06-10'', [JStr ''09:00''])]) None
   = \<lparr>resp = DateRequired, disk = Content [(''2024-06-10'', [JStr ''09:00''])], trace = []\<rparr>
   \<and> get_slots \<lparr>create_ok = True, save_ok = True, localTZA = (\<lambda>t. 0), parse_other = (\<lambda>s. None)\<rparr>
      Absent (Some [])
   = \<lparr>resp = DateRequired, disk = Absent, trace = []\<rparr>"
  using slots_without_date [of None] slots_without_date [of "Some []"] by simp

lemma split_on_no_sep: "c \<notin> set s \<Longrightarrow> split_on c s = [s]"
  by (induction s) auto

text \<open>
  Claim C9. The decoding of \<open>DELETE /booking/:id\<close> is not total: for every id without a
  dash the second segment of the split is \<open>undefined\<close>, reading \<open>substring\<close> of it
  throws a TypeError, and the exception leaves the handler before the data file is
  read. The answer is not the not-found answer.
\<close>

theorem cancel_without_dash_throws:
  assumes "CHR ''-'' \<notin> set bookingId"
  shows "delete_booking h f bookingId = \<lparr>resp = Uncaught TypeError, disk = f, trace = []\<rparr>
       \<and> resp (delete_booking h f bookingId) \<noteq> NotFound"
  using assms by (simp add: delete_booking_def decode_id_def split_on_no_sep)

theorem cancel_without_dash_throws_witness:
  "CHR ''-'' \<notin> set ''20240608''
   \<and> delete_booking \<lparr>create_ok = True, save_ok = True, localTZA = (\<lambda>t. 0), parse_other = (\<lambda>s. None)\<rparr>
        (Content [(''2024-06-08'', [JStr ''09:00''])]) ''20240608''
     = \<lparr>resp = Uncaught TypeError, disk = Content [(''2024-06-08'', [JStr ''09:00''])], trace = []\<rparr>"
proof -
  have h: "CHR ''-'' \<notin> set ''20240608''" by simp
  show ?thesis
    using h cancel_without_dash_throws [OF h] by simp
qed

section \<open>The client and the vehicle\<close>

text \<open>
  The vehicle is never read, and the client only for the line on the console. The data
  file that \<open>POST /book\<close> leaves depends on neither; the answer depends on neither as
  long as the name of the client can be converted to a string, as every missing name
  and every name that is a string can.
\<close>

lemma book_disk_ignores_client_vehicle:
  assumes "body_date b = body_date b'" and "body_slot b = body_slot b'"
  shows "disk (post_book h f b) = disk (post_book h f b')"
  using assms
  by (auto simp: post_book_def Let_def split: option.splits prod.splits sum.splits lookup.splits)

lemma book_resp_ignores_client_vehicle:
  assumes "body_date b = body_date b'" and "body_slot b = body_slot b'"
    and "stringifiable (client_label (body_client b))"
    and "stringifiable (client_label (body_client b'))"
  shows "resp (post_book h f b) = resp (post_book h f b')"
  using assms
  by (auto simp: post_book_def Let_def split: option.splits prod.splits sum.splits lookup.splits)

lemma client_label_absent: "optional_name client = None \<Longrightarrow> stringifiable (client_label client)"
  by (simp add: client_label_def)

lemma client_label_string:
  "optional_name client = Some (JStr n) \<Longrightarrow> stringifiable (client_label client)"
  by (simp add: client_label_def)

text \<open>
  Claim C10: two \<open>POST /book\<close> requests on the same store with the same date and slot,
  whatever their clients and vehicles, leave the same store and get the same answer.
  The code leaves the same store but does not always give the same answer. Without a
  client the booking of 09:00 on 2024-06-08 is answered with the success; with the
  client \<open>{"name": {"toString": 1}}\<close> the same booking is saved, then the template literal
  of line 109 cannot convert the name to a string and throws a TypeError before the
  answer is sent: the request fails with the booking saved.
\<close>

theorem book_answer_depends_on_client:
  "post_book \<lparr>create_ok = True, save_ok = True, localTZA = (\<lambda>t. 0), parse_other = (\<lambda>s. None)\<rparr>
      (Content [])
      \<lparr>body_date = Some ''2024-06-08'', body_slot = Some (JStr ''09:00''),
       body_client = None, body_vehicle = None\<rparr>
   = \<lparr>resp = BookOK ''2024-06-08'' (JStr ''09:00''),
      disk = Content [(''2024-06-08'', [JStr ''09:00''])],
      trace = [ExistsSync, ReadFileSync, WriteFileSync [(''2024-06-08'', [JStr ''09:00''])],
               LogBooked ''2024-06-08'' (JStr ''09:00'') (JStr ''anonyme'')]\<rparr>
   \<and> post_book \<lparr>create_ok = True, save_ok = True, localTZA = (\<lambda>t. 0), parse_other = (\<lambda>s. None)\<rparr>
      (Content [])
      \<lparr>body_date = Some ''2024-06-08'', body_slot = Some (JStr ''09:00''),
       body_client = Some (JObj [(''name'', JObj [(''toString'', JNum 1)])]),
       body_vehicle = None\<rparr>
   = \<lparr>resp = Uncaught TypeError,
      disk = Content [(''2024-06-08'', [JStr ''09:00''])],
      trace = [ExistsSync, ReadFileSync, WriteFileSync [(''2024-06-08'', [JStr ''09:00''])]]\<rparr>"
  by (simp add: post_book_def readData_def writeData_def get_prop_def set_prop_def
                object_prototype_names_def client_label_def optional_name_def
                array_index_def is_digit_def array_includes_def Let_def)

section \<open>Decoding the id of a booking\<close>

text \<open>
  The first segment of a split holds no separator, so the date that
  \<open>DELETE /booking/:id\<close> decodes never holds a dash; and the time it decodes is the
  second segment only, so the slot it rebuilds from the id of a template slot \<open>HH:MM\<close>
  is \<open>HH:\<close>.
\<close>

lemma hd_split_on_no_sep: "c \<notin> set (hd (split_on c s))"
  by (induction s) (auto split: list.splits)

lemma split_on_append_sep: "c \<notin> set a \<Longrightarrow> split_on c (a @ c # r) = a # split_on c r"
  by (induction a) auto

lemma decode_id_date_no_dash:
  assumes "decode_id i = Inr (date, slot)"
  shows "CHR ''-'' \<notin> set date"
proof -
  from assms have "date = hd (split_on CHR ''-'' i)"
    by (auto simp: decode_id_def split: list.splits)
  then show ?thesis by (simp add: hd_split_on_no_sep)
qed

lemma decode_booking_id_no_dash:
  assumes "CHR ''-'' \<notin> set date"
  shows "decode_id (booking_id date slot) =
           (case split_on CHR ''-'' (replace_first CHR '':'' CHR ''-'' slot) of
              [] \<Rightarrow> Inl TypeError
            | time # _ \<Rightarrow> Inr (date, substring time 0 2 @ '':'' @ substring_from time 3))"
  using assms by (simp add: decode_id_def booking_id_def split_on_append_sep split: list.splits)

lemma template_slot_decoded:
  assumes "slot \<in> set DEFAULT_SLOTS \<union> set SATURDAY_SLOTS" and "CHR ''-'' \<notin> set date"
  shows "decode_id (booking_id date slot) = Inr (date, take 2 slot @ '':'')"
  using assms
  by (auto simp: decode_booking_id_no_dash DEFAULT_SLOTS_def SATURDAY_SLOTS_def
                 substring_def substring_from_def)

lemma template_slot_not_recovered:
  assumes "slot \<in> set DEFAULT_SLOTS \<union> set SATURDAY_SLOTS"
  shows "decode_id (booking_id date slot) \<noteq> Inr (date, slot)"
proof (cases "CHR ''-'' \<in> set date")
  case True
  then show ?thesis using decode_id_date_no_dash by blast
next
  case False
  have "take 2 slot @ '':'' \<noteq> slot"
    using assms by (auto simp: DEFAULT_SLOTS_def SATURDAY_SLOTS_def)
  then show ?thesis using template_slot_decoded [OF assms False] by simp
qed

text \<open>
  Claim C1: decoding the id that \<open>GET /bookings\<close> gives a booking recovers its date and
  slot. The code does not do so. For the booking of 09:00 on 2024-06-08 the id is
  \<open>2024-06-08-09-00\<close>; the decoding of \<open>DELETE /booking/:id\<close> splits it at every dash,
  takes \<open>2024\<close> for the date and \<open>06\<close> for the time, and rebuilds the slot \<open>06:\<close>.
  (\<open>template_slot_not_recovered\<close> above: no slot of either template is recovered,
  whatever the date.)
\<close>

theorem decode_of_booking_id_wrong:
  "booking_id ''2024-06-08'' ''09:00'' = ''2024-06-08-09-00''
   \<and> decode_id (booking_id ''2024-06-08'' ''09:00'') = Inr (''2024'', ''06:'')"
  by (simp add: decode_id_def booking_id_def substring_def substring_from_def)

section \<open>Cancelling a booking by its id\<close>

text \<open>\<open>DELETE /booking/:id\<close> removes at most the pair that the id decodes to: every
  other booked slot stays booked.\<close>

lemma get_prop_delete_prop_other:
  "k' \<noteq> k \<Longrightarrow> get_prop (delete_prop data k) k' = get_prop data k'"
  by (simp add: get_prop_def map_of_delete_prop)

lemma delete_booking_keeps_others:
  assumes own: "get_prop data d = Own booked" and mem: "JStr s \<in> set booked"
    and other: "decode_id i \<noteq> Inr (d, s)"
  shows "\<exists>booked'. get_prop (store_of (disk (delete_booking h (Content data) i))) d = Own booked'
                  \<and> JStr s \<in> set booked'"
proof (cases "decode_id i")
  case (Inl e)
  then show ?thesis using own mem by (simp add: delete_booking_def store_of_def)
next
  case (Inr p)
  obtain date slot where p: "p = (date, slot)" by (cases p)
  show ?thesis
  proof (cases "date = d")
    case True
    then have ne: "slot \<noteq> s" using other Inr p by simp
    then have "JStr s \<in> set (filter (\<lambda>x. x \<noteq> JStr slot) booked)" using mem by simp
    moreover from this have "filter (\<lambda>x. x \<noteq> JStr slot) booked \<noteq> []"
      by (auto simp: filter_empty_conv)
    ultimately show ?thesis
      using own mem Inr p True
      by (auto simp: delete_booking_def readData_def writeData_def store_of_def Let_def
                     get_prop_set_prop_same)
  next
    case False
    then show ?thesis
      using own mem Inr p
      by (auto simp: delete_booking_def readData_def writeData_def store_of_def Let_def
                     get_prop_set_prop_other get_prop_delete_prop_other
               split: lookup.splits)
  qed
qed

lemma cancel_by_id_keeps_template_booking:
  assumes "slot \<in> set DEFAULT_SLOTS \<union> set SATURDAY_SLOTS"
    and "resp (post_book h f b) = BookOK d (JStr slot)"
  shows "\<exists>booked. get_prop (store_of (disk (delete_booking h' (disk (post_book h f b))
                                             (booking_id d slot)))) d = Own booked
                 \<and> JStr slot \<in> set booked"
proof -
  from post_book_BookOK [OF assms(2)]
  obtain data booked where dk: "disk (post_book h f b) = Content data"
    and own: "get_prop data d = Own booked" and mem: "JStr slot \<in> set booked"
    by auto
  show ?thesis
    unfolding dk
    by (rule delete_booking_keeps_others [OF own mem template_slot_not_recovered [OF assms(1)]])
qed

lemma booked_slot_not_available:
  assumes "get_prop (store_of f) d = Own booked" and "JStr s \<in> set booked"
    and "resp (get_slots h f (Some d)) = SlotsOK d' available booked'"
  shows "s \<notin> set available"
  using assms
  by (cases f)
     (auto simp: get_slots_def readData_def store_of_def Let_def array_includes_JStr
           split: if_splits lookup.splits)

lemmas date_defs = getDay_def Date_parse_def parse_date_only_def digits_val_def digit_val_def
  is_digit_def month_lengths_def InLeapYear_def MakeDay_def DayFromYear_def WeekDay_def Day_def
  msPerDay_def calendar_weekday_def

text \<open>
  Claim C3: after a booking of a template slot succeeds, cancelling by the id of the
  booking succeeds, the slot is available again, and the date leaves the list of
  bookings when the slot was its only booking. The code does not do so. On an empty
  store, 09:00 is booked on 2024-06-08 (a Saturday); \<open>DELETE /booking/2024-06-08-09-00\<close>
  looks for the slot \<open>06:\<close> on the date \<open>2024\<close> and answers 404; the data file is as
  before, \<open>GET /slots\<close> still gives 09:00 as booked and not as available, and
  \<open>GET /bookings\<close> still lists the booking. (\<open>cancel_by_id_keeps_template_booking\<close>
  and \<open>booked_slot_not_available\<close> above: so it is for every date and every slot of a
  template.)
\<close>

theorem cancel_of_booked_id_not_found:
  "post_book \<lparr>create_ok = True, save_ok = True, localTZA = (\<lambda>t. 0), parse_other = (\<lambda>s. None)\<rparr>
      (Content [])
      \<lparr>body_date = Some ''2024-06-08'', body_slot = Some (JStr ''09:00''),
       body_client = None, body_vehicle = None\<rparr>
   = \<lparr>resp = BookOK ''2024-06-08'' (JStr ''09:00''),
      disk = Content [(''2024-06-08'', [JStr ''09:00''])],
      trace = [ExistsSync, ReadFileSync, WriteFileSync [(''2024-06-08'', [JStr ''09:00''])],
               LogBooked ''2024-06-08'' (JStr ''09:00'') (JStr ''anonyme'')]\<rparr>
   \<and> delete_booking \<lparr>create_ok = True, save_ok = True, localTZA = (\<lambda>t. 0), parse_other = (\<lambda>s. None)\<rparr>
      (Content [(''2024-06-08'', [JStr ''09:00''])])
      (booking_id ''2024-06-08'' ''09:00'')
   = \<lparr>resp = NotFound, disk = Content [(''2024-06-08'', [JStr ''09:00''])],
      trace = [ExistsSync, ReadFileSync]\<rparr>
   \<and> get_slots \<lparr>create_ok = True, save_ok = True, localTZA = (\<lambda>t. 0), parse_other = (\<lambda>s. None)\<rparr>
      (Content [(''2024-06-08'', [JStr ''09:00''])]) (Some ''2024-06-08'')
   = \<lparr>resp = SlotsOK ''2024-06-08'' [''10:00'', ''11:00'', ''12:00''] [JStr ''09:00''],
      disk = Content [(''2024-06-08'', [JStr ''09:00''])],
      trace = [ExistsSync, ReadFileSync]\<rparr>
   \<and> get_bookings \<lparr>create_ok = True, save_ok = True, localTZA = (\<lambda>t. 0), parse_other = (\<lambda>s. None)\<rparr>
      (Content [(''2024-06-08'', [JStr ''09:00''])])
   = \<lparr>resp = BookingsOK 1 [\<lparr>bk_date = ''2024-06-08'', bk_slot = ''09:00'',
                              bk_id = ''2024-06-08-09-00''\<rparr>],
      disk = Content [(''2024-06-08'', [JStr ''09:00''])],
      trace = [ExistsSync, ReadFileSync]\<rparr>"
  by (simp add: post_book_def delete_booking_def get_slots_def get_bookings_def
                readData_def writeData_def get_prop_def set_prop_def object_keys_def
                object_prototype_names_def client_label_def optional_name_def array_index_def
                decode_id_def booking_id_def substring_def substring_from_def
                SATURDAY_SLOTS_def DEFAULT_SLOTS_def Let_def date_defs
                array_includes_def format_booking_def)

section \<open>The template of a day\<close>

text \<open>
  \<open>GET /slots\<close> filters the Saturday template when \<open>getDay\<close> is 6 and the default
  template otherwise. \<open>getDay\<close> is the day of the week in local time of midnight UTC of
  the date: it is the day of the week of the date on a host whose local time is at or
  ahead of UTC, and the day before on a host whose local time is behind UTC.
\<close>

lemma calendar_weekday_known_days:
  "calendar_weekday ''1970-01-01'' = Some 4"
  "calendar_weekday ''1900-03-01'' = Some 4"
  "calendar_weekday ''2000-02-29'' = Some 2"
  "calendar_weekday ''2024-06-08'' = Some 6"
  "calendar_weekday ''2023-02-29'' = None"
  by (simp_all add: date_defs)

lemma WeekDay_local_ahead:
  assumes "0 \<le> off" and "off < msPerDay"
  shows "WeekDay (n * msPerDay + off) = (n + 4) mod 7"
proof -
  have "(n * msPerDay + off) div msPerDay = n"
    using assms by (simp add: msPerDay_def div_pos_pos_trivial)
  then show ?thesis by (simp add: WeekDay_def Day_def)
qed

lemma WeekDay_local_behind:
  assumes "- msPerDay \<le> off" and "off < 0"
  shows "WeekDay (n * msPerDay + off) = (n + 3) mod 7"
proof -
  have e: "n * msPerDay + off = (n - 1) * msPerDay + (off + msPerDay)"
    by (simp add: algebra_simps)
  have "((n - 1) * msPerDay + (off + msPerDay)) div msPerDay = n - 1"
    using assms by (simp add: msPerDay_def div_pos_pos_trivial)
  then have "(n * msPerDay + off) div msPerDay = n - 1"
    by (simp only: e)
  then show ?thesis by (simp add: WeekDay_def Day_def add.commute)
qed

lemma getDay_ahead_of_utc:
  assumes "parse_date_only s = Some (y, m, d)"
    and "0 \<le> localTZA h (MakeDay y m d * msPerDay)"
    and "localTZA h (MakeDay y m d * msPerDay) < msPerDay"
  shows "getDay h s = calendar_weekday s"
  using assms by (simp add: getDay_def Date_parse_def calendar_weekday_def WeekDay_local_ahead)

lemma getDay_behind_utc:
  assumes "parse_date_only s = Some (y, m, d)"
    and "- msPerDay \<le> localTZA h (MakeDay y m d * msPerDay)"
    and "localTZA h (MakeDay y m d * msPerDay) < 0"
  shows "getDay h s = Some ((MakeDay y m d + 3) mod 7)"
  using assms by (simp add: getDay_def Date_parse_def WeekDay_local_behind)

lemma get_slots_template:
  assumes "resp (get_slots h f (Some date)) = SlotsOK date' available booked"
  shows "available = filter (\<lambda>slot. JStr slot \<notin> set booked)
                       (if getDay h date = Some 6 then SATURDAY_SLOTS else DEFAULT_SLOTS)"
  using assms
  by (auto simp: get_slots_def Let_def array_includes_JStr
           split: if_splits prod.splits sum.splits lookup.splits)

lemma saturday_behind_utc:
  assumes "calendar_weekday s = Some 6"
    and "\<And>t. - msPerDay \<le> localTZA h t \<and> localTZA h t < 0"
    and "resp (get_slots h f (Some s)) = SlotsOK date' available booked"
  shows "available = filter (\<lambda>slot. JStr slot \<notin> set booked) DEFAULT_SLOTS"
proof -
  from assms(1) obtain y m d where p: "parse_date_only s = Some (y, m, d)"
    and w: "(MakeDay y m d + 4) mod 7 = 6"
    by (auto simp: calendar_weekday_def split: option.splits)
  from w have "(MakeDay y m d + 3) mod 7 = 5" by presburger
  then have "getDay h s = Some 5"
    using getDay_behind_utc [OF p] assms(2) by simp
  then show ?thesis using get_slots_template [OF assms(3)] by simp
qed

lemma saturday_ahead_of_utc:
  assumes "calendar_weekday s = Some 6"
    and "\<And>t. 0 \<le> localTZA h t \<and> localTZA h t < msPerDay"
    and "resp (get_slots h f (Some s)) = SlotsOK date' available booked"
  shows "available = filter (\<lambda>slot. JStr slot \<notin> set booked) SATURDAY_SLOTS"
proof -
  from assms(1) obtain y m d where p: "parse_date_only s = Some (y, m, d)"
    by (auto simp: calendar_weekday_def split: option.splits)
  have "getDay h s = Some 6"
    using getDay_ahead_of_utc [OF p] assms(1,2) by simp
  then show ?thesis using get_slots_template [OF assms(3)] by simp
qed

text \<open>
  Claim C5: for every date that is a Saturday the available slots are computed from
  the Saturday template of four slots, and for every other date from the default
  template of eight. The code does not do so on a host whose local time is behind UTC.
  With local time four hours behind UTC (New York in June), 2024-06-08, a Saturday, is
  midnight UTC, hence Friday evening in local time: \<open>getDay\<close> is 5 and the eight slots of
  the default template are returned; 2024-06-09, a Sunday, gets the Saturday template.
  (\<open>saturday_behind_utc\<close> above: so it is for every Saturday on every such host;
  \<open>saturday_ahead_of_utc\<close>: a Saturday gets the Saturday template on every host at or
  ahead of UTC.)
\<close>

theorem saturday_behind_utc_default_template:
  "calendar_weekday ''2024-06-08'' = Some 6
   \<and> get_slots \<lparr>create_ok = True, save_ok = True, localTZA = (\<lambda>t. - 14400000),
                 parse_other = (\<lambda>s. None)\<rparr>
        (Content []) (Some ''2024-06-08'')
     = \<lparr>resp = SlotsOK ''2024-06-08''
                 [''08:00'', ''09:00'', ''10:00'', ''11:00'', ''14:00'', ''15:00'', ''16:00'', ''17:00'']
                 [],
        disk = Content [], trace = [ExistsSync, ReadFileSync]\<rparr>
   \<and> calendar_weekday ''2024-06-09'' = Some 0
   \<and> get_slots \<lparr>create_ok = True, save_ok = True, localTZA = (\<lambda>t. - 14400000),
                 parse_other = (\<lambda>s. None)\<rparr>
        (Content []) (Some ''2024-06-09'')
     = \<lparr>resp = SlotsOK ''2024-06-09'' [''09:00'', ''10:00'', ''11:00'', ''12:00''] [],
        disk = Content [], trace = [ExistsSync, ReadFileSync]\<rparr>"
  by (simp add: get_slots_def readData_def get_prop_def object_prototype_names_def
                SATURDAY_SLOTS_def DEFAULT_SLOTS_def date_defs
                array_includes_def)

section \<open>Dates that name an inherited property\<close>

text \<open>
  For a date that is not the name of a property of \<open>Object.prototype\<close>, and a data file
  that exists or can be created, \<open>GET /slots\<close> returns the stored slots of the date
  (none when the date is not in the store) as booked and the template without them, in
  the order of the template, as available; and \<open>DELETE /booking/:id\<close> answers 404 and
  leaves the store as it was when the decoded date is not in the store or the decoded
  slot is not booked on it.
\<close>

lemma get_slots_of_date:
  assumes "date \<noteq> []" and "date \<notin> set object_prototype_names"
    and "f = Absent \<Longrightarrow> create_ok h"
  shows "resp (get_slots h f (Some date)) =
           SlotsOK date
             (filter (\<lambda>slot. JStr slot
                                \<notin> set (case map_of (store_of f) date of None \<Rightarrow> [] | Some b \<Rightarrow> b))
                (if getDay h date = Some 6 then SATURDAY_SLOTS else DEFAULT_SLOTS))
             (case map_of (store_of f) date of None \<Rightarrow> [] | Some b \<Rightarrow> b)
       \<and> store_of (disk (get_slots h f (Some date))) = store_of f"
  using assms
  by (cases f)
     (auto simp: get_slots_def readData_def store_of_def get_prop_def Let_def
                 array_includes_JStr
           split: option.splits)

lemma delete_booking_not_found:
  assumes "decode_id i = Inr (date, slot)" and "date \<notin> set object_prototype_names"
    and "f = Absent \<Longrightarrow> create_ok h"
    and "case map_of (store_of f) date of None \<Rightarrow> True | Some booked \<Rightarrow> JStr slot \<notin> set booked"
  shows "resp (delete_booking h f i) = NotFound
       \<and> store_of (disk (delete_booking h f i)) = store_of f
       \<and> (f \<noteq> Absent \<longrightarrow> disk (delete_booking h f i) = f
                          \<and> trace (delete_booking h f i) = [ExistsSync, ReadFileSync]
                            @ (if f = Unreadable then [ConsoleError] else []))"
  using assms
  by (cases f)
     (auto simp: delete_booking_def readData_def store_of_def get_prop_def
                 array_includes_JStr
           split: option.splits)

text \<open>
  Claim C6: for every non-empty date and every store, \<open>GET /slots\<close> returns the stored
  slots of the date as booked (none when the date is absent) and the template without
  them as available. The code does not do so for a date that names a property the
  store inherits. With the date \<open>constructor\<close> and an empty store, \<open>data[date]\<close> is the
  function \<open>Object\<close>, which is truthy and replaces the empty array of line 59; it has no
  method \<open>includes\<close>, the filter of line 66 throws a TypeError and no slots are
  returned.
\<close>

theorem slots_of_inherited_key_throws:
  "get_slots \<lparr>create_ok = True, save_ok = True, localTZA = (\<lambda>t. 0), parse_other = (\<lambda>s. None)\<rparr>
      (Content []) (Some ''constructor'')
   = \<lparr>resp = Uncaught TypeError, disk = Content [], trace = [ExistsSync, ReadFileSync]\<rparr>"
  by (simp add: get_slots_def readData_def get_prop_def object_prototype_names_def)

text \<open>
  Claim C7: for every id that decodes to a date absent from the store, or to a slot
  not booked on its date, \<open>DELETE /booking/:id\<close> answers with the not-found error and
  leaves the store unchanged. The code leaves the store unchanged but does not answer
  404 when the decoded date names an inherited property. The id \<open>constructor-09-00\<close>
  decodes to the date \<open>constructor\<close>, which is not in the store; \<open>!data[date]\<close> is false
  for the inherited function, and \<open>data[date].includes\<close> of line 155 throws a
  TypeError.
\<close>

theorem cancel_of_inherited_key_throws:
  "decode_id ''constructor-09-00'' = Inr (''constructor'', ''09:'')
   \<and> map_of (store_of (Content [(''2024-06-08'', [JStr ''09:00''])])) ''constructor'' = None
   \<and> delete_booking \<lparr>create_ok = True, save_ok = True, localTZA = (\<lambda>t. 0), parse_other = (\<lambda>s. None)\<rparr>
        (Content [(''2024-06-08'', [JStr ''09:00''])]) ''constructor-09-00''
     = \<lparr>resp = Uncaught TypeError, disk = Content [(''2024-06-08'', [JStr ''09:00''])],
        trace = [ExistsSync, ReadFileSync]\<rparr>"
  by (simp add: delete_booking_def readData_def get_prop_def object_prototype_names_def
                decode_id_def substring_def substring_from_def store_of_def)

end
